theory Spec2Isabelle
  imports Complex_Main "HOL-Library.Product_Lexorder"
begin

section \<open>Times of day and date-times\<close>

text \<open>
  The daemon of \<^verbatim>\<open>break_reminder.py\<close> works with three types of Python's
  \<^verbatim>\<open>datetime\<close> module, all naive (no time zone).

  \<^item> \<^verbatim>\<open>datetime.time\<close>: hour, minute, second, microsecond.
  \<^item> \<^verbatim>\<open>datetime.date\<close>: represented by its proleptic Gregorian ordinal, the value of
    \<^verbatim>\<open>toordinal()\<close> (day 1 is 0001-01-01, day 3652059 is 9999-12-31). Comparing two dates
    and adding a number of days are functions of the ordinal in Python as well.
  \<^item> \<^verbatim>\<open>datetime.datetime\<close>: a date and a time.
\<close>

record time_of_day =
  hour :: nat
  minute :: nat
  second :: nat
  microsecond :: nat

record datetime =
  date :: nat
  time :: time_of_day

text \<open>The ranges that the constructors of Python enforce.\<close>

definition MAXORDINAL :: nat where
  "MAXORDINAL = 3652059"

definition valid_time :: "time_of_day \<Rightarrow> bool" where
  "valid_time t \<longleftrightarrow> hour t < 24 \<and> minute t < 60 \<and> second t < 60 \<and> microsecond t < 1000000"

definition valid_datetime :: "datetime \<Rightarrow> bool" where
  "valid_datetime d \<longleftrightarrow> 0 < date d \<and> date d \<le> MAXORDINAL \<and> valid_time (time d)"

text \<open>
  Python compares two naive times as the tuples (hour, minute, second, microsecond), and
  two naive date-times as the tuples (year, month, day, hour, minute, second, microsecond);
  the order of (year, month, day) is the order of the ordinals.
\<close>

definition time_tuple :: "time_of_day \<Rightarrow> nat \<times> nat \<times> nat \<times> nat" where
  "time_tuple t = (hour t, minute t, second t, microsecond t)"

definition time_le :: "time_of_day \<Rightarrow> time_of_day \<Rightarrow> bool" where
  "time_le a b \<longleftrightarrow> time_tuple a \<le> time_tuple b"

definition datetime_tuple :: "datetime \<Rightarrow> nat \<times> nat \<times> nat \<times> nat \<times> nat" where
  "datetime_tuple d = (date d, time_tuple (time d))"

definition datetime_ge :: "datetime \<Rightarrow> datetime \<Rightarrow> bool" where
  "datetime_ge a b \<longleftrightarrow> datetime_tuple b \<le> datetime_tuple a"

text \<open>\<^verbatim>\<open>datetime.datetime.combine(date, time)\<close>.\<close>

definition combine :: "nat \<Rightarrow> time_of_day \<Rightarrow> datetime" where
  "combine d t = \<lparr>date = d, time = t\<rparr>"

text \<open>
  The position of a time within its day and of a date-time on the time line, both in
  microseconds. These are the numbers the specification speaks about when it compares
  times of day and measures the distance between two date-times.
\<close>

definition micros_of_day :: "time_of_day \<Rightarrow> int" where
  "micros_of_day t =
     ((int (hour t) * 60 + int (minute t)) * 60 + int (second t)) * 1000000 + int (microsecond t)"

definition micros_of_datetime :: "datetime \<Rightarrow> int" where
  "micros_of_datetime d = int (date d) * 86400000000 + micros_of_day (time d)"

section \<open>The work-hours check\<close>

text \<open>
  \<^verbatim>\<open>within_work_hours(start, end)\<close> reads the clock, keeps the time of day of the reading
  and returns \<^verbatim>\<open>start <= now <= end\<close>. The reading of the clock is the first argument of
  the model.
\<close>

definition within_work_hours :: "datetime \<Rightarrow> time_of_day \<Rightarrow> time_of_day \<Rightarrow> bool" where
  "within_work_hours clock_now start end_t =
     (let now = time clock_now in time_le start now \<and> time_le now end_t)"

section \<open>Sleeping until work starts\<close>

text \<open>
  The exceptions of Python that the modelled code can raise. \<open>ParsingError\<close> stands for
  whatever \<^verbatim>\<open>ConfigParser.read\<close> raises on a file it opens but cannot parse.
\<close>

datatype error = OverflowError | ValueError | ParsingError | InterpolationError

text \<open>
  \<^verbatim>\<open>date + timedelta(days=n)\<close> adds to the ordinal and raises \<^verbatim>\<open>OverflowError\<close> when the
  result leaves the range of dates.
\<close>

definition date_add_days :: "nat \<Rightarrow> int \<Rightarrow> error + nat" where
  "date_add_days d n =
     (let ordinal = int d + n
      in if 0 < ordinal \<and> ordinal \<le> int MAXORDINAL then Inr (nat ordinal) else Inl OverflowError)"

text \<open>
  A \<^verbatim>\<open>timedelta\<close> is an exact number of microseconds (Python stores it as days, seconds
  and microseconds). \<^verbatim>\<open>total_seconds()\<close> divides it by \<open>10\<^sup>6\<close>; the model keeps the
  quotient as an exact real number where Python rounds it to the nearest float.
\<close>

type_synonym timedelta = int

definition datetime_sub :: "datetime \<Rightarrow> datetime \<Rightarrow> timedelta" where
  "datetime_sub a b = micros_of_datetime a - micros_of_datetime b"

definition total_seconds :: "timedelta \<Rightarrow> real" where
  "total_seconds delta = real_of_int delta / 1000000"

text \<open>
  \<^verbatim>\<open>time_until(target)\<close> reads the clock itself; the reading is the second argument.
\<close>

definition time_until :: "datetime \<Rightarrow> datetime \<Rightarrow> real" where
  "time_until target clock_now =
     (let now = clock_now; delta = datetime_sub target now
      in max (total_seconds delta) 0)"

text \<open>
  \<^verbatim>\<open>sleep_until_work_start(start)\<close> reads the clock (\<open>clock_now\<close>), and \<^verbatim>\<open>time_until\<close>,
  which it calls, reads it once more (\<open>clock_later\<close>). The result is the duration handed
  to \<^verbatim>\<open>asyncio.sleep\<close>, or the exception raised before that.
\<close>

definition sleep_until_work_start :: "datetime \<Rightarrow> datetime \<Rightarrow> time_of_day \<Rightarrow> error + real" where
  "sleep_until_work_start clock_now clock_later start =
     (let now = clock_now;
          today_start = combine (date now) start
      in case (if datetime_ge now today_start
               then (case date_add_days (date now) 1 of
                       Inl e \<Rightarrow> Inl e
                     | Inr tomorrow \<Rightarrow> Inr (combine tomorrow start))
               else Inr today_start) of
           Inl e \<Rightarrow> Inl e
         | Inr next_start \<Rightarrow> Inr (time_until next_start clock_later))"

text \<open>
  The specification's \<^verbatim>\<open>seconds_until_next_start(now, start)\<close> has one \<open>now\<close>: both
  readings of the clock are the same instant.
\<close>

definition seconds_until_next_start :: "datetime \<Rightarrow> time_of_day \<Rightarrow> error + real" where
  "seconds_until_next_start now start = sleep_until_work_start now now start"

text \<open>
  The specification's words, for comparison: the next occurrence of \<open>start\<close> is today's
  when \<open>start\<close> is still strictly ahead of the time of day of \<open>now\<close>, and tomorrow's
  otherwise; the distance between two date-times in seconds.
\<close>

definition spec_next_start :: "datetime \<Rightarrow> time_of_day \<Rightarrow> datetime" where
  "spec_next_start now start =
     (if micros_of_day (time now) < micros_of_day start
      then \<lparr>date = date now, time = start\<rparr>
      else \<lparr>date = date now + 1, time = start\<rparr>)"

definition spec_seconds_between :: "datetime \<Rightarrow> datetime \<Rightarrow> real" where
  "spec_seconds_between a b =
     (real_of_int (micros_of_datetime b) - real_of_int (micros_of_datetime a)) / 1000000"

section \<open>Parsing the values of the configuration\<close>

text \<open>
  Strings are lists of bytes; the models of \<^verbatim>\<open>int\<close> and \<^verbatim>\<open>strptime\<close> below cover ASCII
  input (Python also accepts the digits and the white space of other scripts).
\<close>

definition is_digit :: "char \<Rightarrow> bool" where
  "is_digit c \<longleftrightarrow> (48::nat) \<le> of_char c \<and> (of_char c :: nat) \<le> 57"

definition digit_value :: "char \<Rightarrow> nat" where
  "digit_value c = of_char c - 48"

definition is_space :: "char \<Rightarrow> bool" where
  "is_space c \<longleftrightarrow> (let n = (of_char c :: nat) in (9 \<le> n \<and> n \<le> 13) \<or> n = 32)"

definition strip :: "string \<Rightarrow> string" where
  "strip s = rev (dropWhile is_space (rev (dropWhile is_space s)))"

text \<open>
  The digits of a decimal literal after its first digit: single underscores may stand
  between two digits. The accumulator is the value read so far.
\<close>

fun digits_value :: "nat \<Rightarrow> string \<Rightarrow> nat option" where
  "digits_value acc [] = Some acc"
| "digits_value acc [c] = (if is_digit c then Some (acc * 10 + digit_value c) else None)"
| "digits_value acc (c # d # ds) =
     (if c = CHR ''_''
      then (if is_digit d then digits_value (acc * 10 + digit_value d) ds else None)
      else if is_digit c then digits_value (acc * 10 + digit_value c) (d # ds)
      else None)"

text \<open>
  \<^verbatim>\<open>int(s)\<close> for a string, base 10: surrounding white space is dropped, one sign may
  precede the digits, anything else raises \<^verbatim>\<open>ValueError\<close> (\<open>None\<close> here). The limit on the
  number of digits of recent Python versions is left out.
\<close>

definition python_int :: "string \<Rightarrow> int option" where
  "python_int s =
     (case strip s of
        [] \<Rightarrow> None
      | c # cs \<Rightarrow>
          (let negative = (c = CHR ''-'');
               body = (if c = CHR ''-'' \<or> c = CHR ''+'' then cs else c # cs)
           in case body of
                [] \<Rightarrow> None
              | d # ds \<Rightarrow>
                  (if is_digit d
                   then map_option (\<lambda>n. if negative then - int n else int n)
                          (digits_value (digit_value d) ds)
                   else None)))"

text \<open>
  \<^verbatim>\<open>strptime(s, "%H:%M")\<close> matches \<open>s\<close> from its start against the regular expression
  \<^verbatim>\<open>(2[0-3]|[0-1]\d|\d):([0-5]\d|\d)\<close> and raises \<^verbatim>\<open>ValueError\<close> when nothing matches
  or when the first match leaves part of the string unread. \<open>match_H\<close> and \<open>match_M\<close>
  list the ways each group can match a prefix, in the order the alternatives are tried.
\<close>

definition match_H :: "string \<Rightarrow> (nat \<times> string) list" where
  "match_H s =
     (case s of
        a # b # r \<Rightarrow>
          (if a = CHR ''2'' \<and> is_digit b \<and> digit_value b \<le> 3 then [(20 + digit_value b, r)] else [])
          @ (if (a = CHR ''0'' \<or> a = CHR ''1'') \<and> is_digit b
             then [(10 * digit_value a + digit_value b, r)] else [])
      | _ \<Rightarrow> [])
     @ (case s of
          a # r \<Rightarrow> (if is_digit a then [(digit_value a, r)] else [])
        | [] \<Rightarrow> [])"

definition match_M :: "string \<Rightarrow> (nat \<times> string) list" where
  "match_M s =
     (case s of
        a # b # r \<Rightarrow>
          (if is_digit a \<and> digit_value a \<le> 5 \<and> is_digit b
           then [(10 * digit_value a + digit_value b, r)] else [])
      | _ \<Rightarrow> [])
     @ (case s of
          a # r \<Rightarrow> (if is_digit a then [(digit_value a, r)] else [])
        | [] \<Rightarrow> [])"

definition match_colon :: "string \<Rightarrow> string list" where
  "match_colon s = (case s of c # r \<Rightarrow> (if c = CHR '':'' then [r] else []) | [] \<Rightarrow> [])"

definition strptime_HM :: "string \<Rightarrow> error + (nat \<times> nat)" where
  "strptime_HM s =
     (case concat (map (\<lambda>(h, r). concat (map (\<lambda>r'. map (\<lambda>(m, rest). (h, m, rest)) (match_M r'))
                                            (match_colon r)))
                       (match_H s)) of
        [] \<Rightarrow> Inl ValueError
      | (h, m, rest) # _ \<Rightarrow> (if rest = [] then Inr (h, m) else Inl ValueError))"

text \<open>\<^verbatim>\<open>parse_time(time_str)\<close>: the time of day of the parsed date-time.\<close>

definition parse_time :: "string \<Rightarrow> error + time_of_day" where
  "parse_time time_str =
     (case strptime_HM time_str of
        Inl e \<Rightarrow> Inl e
      | Inr (h, m) \<Rightarrow> Inr \<lparr>hour = h, minute = m, second = 0, microsecond = 0\<rparr>)"

section \<open>Finding and loading the configuration\<close>

text \<open>
  A \<^verbatim>\<open>ConfigParser\<close> that has read a file is seen through \<^verbatim>\<open>get(section, option)\<close>
  without a fallback: the section is missing, the option is missing (in the section and
  among the defaults of the file), the interpolation of the value fails, or there is a
  value.
\<close>

datatype lookup = NoSection | NoOption | BadInterpolation | Value string

type_synonym config_parser = "string \<Rightarrow> string \<Rightarrow> lookup"

text \<open>
  What is at a path: something that cannot be opened (\<^verbatim>\<open>read\<close> skips it silently, a
  directory for example), a file that \<^verbatim>\<open>read\<close> cannot parse, or a file with its parsed
  contents.
\<close>

datatype path_content = Unopenable | Unparsable | Parsed config_parser

text \<open>
  The world the configuration is resolved in: the environment variables, the home
  directory of the current user in the password database (if any), and the file system.
\<close>

record world =
  environ :: "string \<Rightarrow> string option"
  pw_dir :: "string option"
  files :: "string \<Rightarrow> path_content option"

definition DEFAULT_INTERVAL :: int where
  "DEFAULT_INTERVAL = 3600"

definition DEFAULT_START :: string where
  "DEFAULT_START = ''09:00''"

definition DEFAULT_END :: string where
  "DEFAULT_END = ''17:00''"

definition SYSTEM_CONFIG_PATH :: string where
  "SYSTEM_CONFIG_PATH = ''/etc/xdg/break-reminder.conf''"

text \<open>\<^verbatim>\<open>os.path.join(a, b)\<close> for a second component that does not start with a slash.\<close>

definition path_join :: "string \<Rightarrow> string \<Rightarrow> string" where
  "path_join a b = (if a = [] \<or> last a = CHR ''/'' then a @ b else a @ ''/'' @ b)"

text \<open>
  \<^verbatim>\<open>os.path.expanduser("~" + rest)\<close> where \<open>rest\<close> is empty or starts with a slash: the
  home directory is \<^verbatim>\<open>$HOME\<close> or, without it, the one of the password database; its
  trailing slashes are dropped; without any home the path is returned as it is.
\<close>

definition expanduser :: "world \<Rightarrow> string \<Rightarrow> string" where
  "expanduser w rest =
     (case (case environ w ''HOME'' of Some h \<Rightarrow> Some h | None \<Rightarrow> pw_dir w) of
        None \<Rightarrow> ''~'' @ rest
      | Some userhome \<Rightarrow>
          (let p = rev (dropWhile (\<lambda>c. c = CHR ''/'') (rev userhome)) @ rest
           in if p = [] then ''/'' else p))"

definition USER_CONFIG_PATH :: "world \<Rightarrow> string" where
  "USER_CONFIG_PATH w =
     path_join (case environ w ''XDG_CONFIG_HOME'' of
                  Some d \<Rightarrow> d
                | None \<Rightarrow> expanduser w ''/.config'')
               ''break-reminder.conf''"

definition path_exists :: "world \<Rightarrow> string \<Rightarrow> bool" where
  "path_exists w p \<longleftrightarrow> files w p \<noteq> None"

definition get_config_path :: "world \<Rightarrow> string" where
  "get_config_path w =
     (if path_exists w (USER_CONFIG_PATH w) then USER_CONFIG_PATH w else SYSTEM_CONFIG_PATH)"

text \<open>
  \<^verbatim>\<open>ConfigParser().read(path)\<close>: a fresh parser has no section; a path that cannot be
  opened leaves it so.
\<close>

definition empty_parser :: config_parser where
  "empty_parser = (\<lambda>section option. NoSection)"

definition read_config :: "world \<Rightarrow> string \<Rightarrow> error + config_parser" where
  "read_config w p =
     (case files w p of
        None \<Rightarrow> Inr empty_parser
      | Some Unopenable \<Rightarrow> Inr empty_parser
      | Some Unparsable \<Rightarrow> Inl ParsingError
      | Some (Parsed cp) \<Rightarrow> Inr cp)"

text \<open>
  \<^verbatim>\<open>get\<close> and \<^verbatim>\<open>getint\<close> with a fallback: the fallback replaces a missing section or
  option only.
\<close>

definition get_fallback :: "config_parser \<Rightarrow> string \<Rightarrow> string \<Rightarrow> string \<Rightarrow> error + string" where
  "get_fallback cp section option fallback =
     (case cp section option of
        NoSection \<Rightarrow> Inr fallback
      | NoOption \<Rightarrow> Inr fallback
      | BadInterpolation \<Rightarrow> Inl InterpolationError
      | Value v \<Rightarrow> Inr v)"

definition getint_fallback :: "config_parser \<Rightarrow> string \<Rightarrow> string \<Rightarrow> int \<Rightarrow> error + int" where
  "getint_fallback cp section option fallback =
     (case cp section option of
        NoSection \<Rightarrow> Inr fallback
      | NoOption \<Rightarrow> Inr fallback
      | BadInterpolation \<Rightarrow> Inl InterpolationError
      | Value v \<Rightarrow> (case python_int v of None \<Rightarrow> Inl ValueError | Some n \<Rightarrow> Inr n))"

text \<open>The dictionary that \<^verbatim>\<open>load_config\<close> returns, with its keys interval, start and end.\<close>

record config_dict =
  interval_value :: int
  start_value :: string
  end_value :: string

definition load_config :: "world \<Rightarrow> string \<Rightarrow> error + config_dict" where
  "load_config w config_path =
     (if path_exists w config_path
      then (case read_config w config_path of
              Inl e \<Rightarrow> Inl e
            | Inr config \<Rightarrow>
                (case getint_fallback config ''schedule'' ''interval'' DEFAULT_INTERVAL of
                   Inl e \<Rightarrow> Inl e
                 | Inr interval \<Rightarrow>
                     (case get_fallback config ''workhours'' ''start'' DEFAULT_START of
                        Inl e \<Rightarrow> Inl e
                      | Inr start_time \<Rightarrow>
                          (case get_fallback config ''workhours'' ''end'' DEFAULT_END of
                             Inl e \<Rightarrow> Inl e
                           | Inr end_time \<Rightarrow>
                               Inr \<lparr>interval_value = interval, start_value = start_time,
                                    end_value = end_time\<rparr>))))
      else Inr \<lparr>interval_value = DEFAULT_INTERVAL, start_value = DEFAULT_START,
                end_value = DEFAULT_END\<rparr>)"

text \<open>
  The configuration the loop runs with, as the first lines of \<^verbatim>\<open>main\<close> build it. This
  is the specification's \<^verbatim>\<open>ConfigResolver.resolve()\<close>.
\<close>

record configuration =
  interval_seconds :: int
  work_start :: time_of_day
  work_end :: time_of_day

definition resolve :: "world \<Rightarrow> error + configuration" where
  "resolve w =
     (let config_path = get_config_path w
      in case load_config w config_path of
           Inl e \<Rightarrow> Inl e
         | Inr config \<Rightarrow>
             (case parse_time (start_value config) of
                Inl e \<Rightarrow> Inl e
              | Inr ws \<Rightarrow>
                  (case parse_time (end_value config) of
                     Inl e \<Rightarrow> Inl e
                   | Inr we \<Rightarrow>
                       Inr \<lparr>interval_seconds = interval_value config, work_start = ws,
                            work_end = we\<rparr>)))"

section \<open>The reminder loop\<close>

definition NOTIFICATION_TITLE :: string where
  "NOTIFICATION_TITLE = ''Break Reminder''"

definition NOTIFICATION_MESSAGE :: string where
  "NOTIFICATION_MESSAGE = ''It's time to take a break and stretch!''"

text \<open>
  What the loop does to the outside: it shows a notification (title, message, timeout in
  milliseconds, as \<^verbatim>\<open>notify2\<close> takes it) and it suspends itself with \<^verbatim>\<open>asyncio.sleep\<close>
  for a number of seconds. Both calls are taken to return; the lines printed to the
  standard output are left out.
\<close>

datatype event = Show string string int | Sleep real

definition send_notification :: "string \<Rightarrow> string \<Rightarrow> int \<Rightarrow> event" where
  "send_notification title message timeout = Show title message (timeout * 1000)"

fun is_notification :: "event \<Rightarrow> bool" where
  "is_notification (Show title message timeout) = True"
| "is_notification (Sleep seconds) = False"

text \<open>
  The clock is the sequence of the values that the calls of \<^verbatim>\<open>datetime.datetime.now()\<close>
  return, in the order of the calls; nothing is assumed about them. The state of the loop
  is the flag \<^verbatim>\<open>first_run\<close> and the number of readings taken so far.
\<close>

type_synonym clock = "nat \<Rightarrow> datetime"

record loop_state =
  first_run :: bool
  reads :: nat

text \<open>
  One pass through the body of \<^verbatim>\<open>while True\<close>: the state it started in, what it did,
  the value of \<^verbatim>\<open>first_run\<close> while it did so (the first pass inside the window clears
  the flag after its sleep, a pass outside the window sets it before its sleep), the state
  it ended in and the exception that ended it, if any.
\<close>

record step =
  before :: loop_state
  events :: "event list"
  flag_during :: bool
  after :: loop_state
  raised :: "error option"

definition in_window :: "clock \<Rightarrow> configuration \<Rightarrow> loop_state \<Rightarrow> bool" where
  "in_window clk cfg st = within_work_hours (clk (reads st)) (work_start cfg) (work_end cfg)"

text \<open>
  The readings: one for the check; in the steady state one more for the line that reports
  the notification; outside the window one in \<^verbatim>\<open>sleep_until_work_start\<close> and one in
  \<^verbatim>\<open>time_until\<close>, which is not reached when the date overflows.
\<close>

definition iteration :: "clock \<Rightarrow> configuration \<Rightarrow> loop_state \<Rightarrow> step" where
  "iteration clk cfg st =
     (let interval = interval_seconds cfg
      in if in_window clk cfg st
         then (if first_run st
               then \<lparr>before = st,
                     events = [send_notification NOTIFICATION_TITLE ''Starting work.'' 10,
                               Sleep (real_of_int interval)],
                     flag_during = True,
                     after = st\<lparr>first_run := False, reads := reads st + 1\<rparr>,
                     raised = None\<rparr>
               else \<lparr>before = st,
                     events = [send_notification NOTIFICATION_TITLE NOTIFICATION_MESSAGE 10,
                               Sleep (real_of_int interval)],
                     flag_during = False,
                     after = st\<lparr>reads := reads st + 2\<rparr>,
                     raised = None\<rparr>)
         else (case sleep_until_work_start (clk (reads st + 1)) (clk (reads st + 2))
                      (work_start cfg) of
                 Inl e \<Rightarrow>
                   \<lparr>before = st, events = [], flag_during = True,
                    after = st\<lparr>first_run := True, reads := reads st + 2\<rparr>,
                    raised = Some e\<rparr>
               | Inr sleep_duration \<Rightarrow>
                   \<lparr>before = st, events = [Sleep sleep_duration], flag_during = True,
                    after = st\<lparr>first_run := True, reads := reads st + 3\<rparr>,
                    raised = None\<rparr>))"

text \<open>
  The loop never ends by itself, so a run is cut after \<open>n\<close> passes; it is shorter only
  when an exception ends the process.
\<close>

fun run :: "nat \<Rightarrow> clock \<Rightarrow> configuration \<Rightarrow> loop_state \<Rightarrow> step list" where
  "run 0 clk cfg st = []"
| "run (Suc n) clk cfg st =
     (let s = iteration clk cfg st
      in s # (case raised s of None \<Rightarrow> run n clk cfg (after s) | Some e \<Rightarrow> []))"

definition main_loop :: "nat \<Rightarrow> clock \<Rightarrow> configuration \<Rightarrow> step list" where
  "main_loop n clk cfg = run n clk cfg \<lparr>first_run = True, reads = 0\<rparr>"

definition main :: "nat \<Rightarrow> world \<Rightarrow> clock \<Rightarrow> error + step list" where
  "main n w clk =
     (case resolve w of
        Inl e \<Rightarrow> Inl e
      | Inr cfg \<Rightarrow> Inr (main_loop n clk cfg))"

section \<open>Notions of the specification and examples\<close>

text \<open>A key is missing when \<^verbatim>\<open>get\<close> finds no such section or no such option.\<close>

definition key_missing :: "config_parser \<Rightarrow> string \<Rightarrow> string \<Rightarrow> bool" where
  "key_missing cp section option \<longleftrightarrow> cp section option = NoSection \<or> cp section option = NoOption"

text \<open>The defaults as the specification lists them.\<close>

definition spec_defaults :: config_dict where
  "spec_defaults = \<lparr>interval_value = 3600, start_value = ''09:00'', end_value = ''17:00''\<rparr>"

text \<open>
  Concrete inputs for the examples below: the view of a parser that has read a plain
  document (sections with their options, no defaults section, no interpolation), a world
  with the given environment variables and paths, a time of day given by hour and minute,
  a configuration, a clock that always shows 10:00, and a clock that shows 08:00 three
  times and 10:00 from then on.
\<close>

definition parser_of :: "(string \<times> (string \<times> string) list) list \<Rightarrow> config_parser" where
  "parser_of doc section option =
     (case map_of doc section of
        None \<Rightarrow> NoSection
      | Some options \<Rightarrow> (case map_of options option of None \<Rightarrow> NoOption | Some v \<Rightarrow> Value v))"

definition example_world :: "(string \<times> string) list \<Rightarrow> (string \<times> path_content) list \<Rightarrow> world" where
  "example_world variables paths = \<lparr>environ = map_of variables, pw_dir = None, files = map_of paths\<rparr>"

definition hm :: "nat \<Rightarrow> nat \<Rightarrow> time_of_day" where
  "hm h m = \<lparr>hour = h, minute = m, second = 0, microsecond = 0\<rparr>"

definition example_config :: "int \<Rightarrow> time_of_day \<Rightarrow> time_of_day \<Rightarrow> configuration" where
  "example_config i s e = \<lparr>interval_seconds = i, work_start = s, work_end = e\<rparr>"

definition steady_clock :: clock where
  "steady_clock = (\<lambda>k. \<lparr>date = 738000, time = hm 10 0\<rparr>)"

definition morning_clock :: clock where
  "morning_clock = (\<lambda>k. if k < 3 then \<lparr>date = 738000, time = hm 8 0\<rparr>
                          else \<lparr>date = 738000, time = hm 10 0\<rparr>)"

section \<open>Unfolding the definitions on concrete inputs\<close>

lemmas eval_parse =
  parse_time_def strptime_HM_def match_H_def match_M_def match_colon_def is_digit_def
  digit_value_def python_int_def strip_def is_space_def

lemmas eval_config =
  resolve_def load_config_def get_config_path_def USER_CONFIG_PATH_def SYSTEM_CONFIG_PATH_def
  path_exists_def path_join_def expanduser_def read_config_def getint_fallback_def
  get_fallback_def DEFAULT_INTERVAL_def DEFAULT_START_def DEFAULT_END_def Let_def

lemmas eval_loop =
  main_loop_def iteration_def in_window_def within_work_hours_def time_le_def time_tuple_def
  less_eq_prod_def sleep_until_work_start_def datetime_ge_def datetime_tuple_def combine_def
  date_add_days_def MAXORDINAL_def time_until_def datetime_sub_def total_seconds_def
  micros_of_datetime_def micros_of_day_def send_notification_def NOTIFICATION_TITLE_def
  Let_def

section \<open>Facts about the orders\<close>

lemma micros_of_day_mono:
  assumes "valid_time a" and "valid_time b"
  shows "time_le a b \<longleftrightarrow> micros_of_day a \<le> micros_of_day b"
  using assms
  unfolding time_le_def time_tuple_def micros_of_day_def valid_time_def less_eq_prod_def
  by auto

lemma micros_of_day_inj:
  assumes "valid_time a" and "valid_time b" and "micros_of_day a = micros_of_day b"
  shows "a = b"
proof -
  have "time_le a b" and "time_le b a"
    using assms by (simp_all add: micros_of_day_mono)
  then have "time_tuple a = time_tuple b"
    unfolding time_le_def by (rule antisym)
  then show ?thesis
    by (simp add: time_tuple_def time_of_day.equality)
qed

lemma datetime_ge_today:
  "datetime_ge now (combine (date now) start) \<longleftrightarrow> time_le start (time now)"
  by (simp add: datetime_ge_def datetime_tuple_def combine_def time_le_def less_eq_prod_def)

lemma time_until_nonneg: "0 \<le> time_until target clock_now"
  by (simp add: time_until_def)

lemma sleep_until_work_start_nonneg:
  "sleep_until_work_start clock_now clock_later start = Inr d \<Longrightarrow> 0 \<le> d"
  by (auto simp: sleep_until_work_start_def Let_def time_until_nonneg split: if_splits sum.splits)

lemma micros_of_day_bounds:
  "valid_time t \<Longrightarrow> 0 \<le> micros_of_day t \<and> micros_of_day t < 86400000000"
  unfolding valid_time_def micros_of_day_def by auto

lemma sleep_until_work_start_eq:
  assumes "valid_time (time now)" and "valid_time start"
  shows "sleep_until_work_start now later start =
           (if micros_of_day (time now) < micros_of_day start
            then Inr (time_until (combine (date now) start) later)
            else if date now < MAXORDINAL
            then Inr (time_until (combine (date now + 1) start) later)
            else Inl OverflowError)"
  using assms
  by (auto simp: sleep_until_work_start_def Let_def datetime_ge_today micros_of_day_mono
        date_add_days_def nat_add_distrib)

lemma time_until_eq:
  "time_until target later = max (spec_seconds_between later target) 0"
  by (simp add: time_until_def Let_def datetime_sub_def total_seconds_def
      spec_seconds_between_def)

section \<open>The work-hours window\<close>

text \<open>
  Claim C1. For all valid times of day, the work-hours check holds exactly when
  \<open>start \<le> now \<le> end\<close>, both ends included, where the times are compared by their
  position in the day. A window with \<open>start = end\<close> contains that instant only, a
  window with \<open>start > end\<close> contains nothing, and the date of the reading plays no part.
\<close>

theorem within_work_hours_inclusive:
  assumes "valid_time (time now)" and "valid_time start" and "valid_time end_t"
  shows "(within_work_hours now start end_t \<longleftrightarrow>
            micros_of_day start \<le> micros_of_day (time now) \<and>
            micros_of_day (time now) \<le> micros_of_day end_t)
       \<and> (start = end_t \<longrightarrow> (within_work_hours now start end_t \<longleftrightarrow> time now = start))
       \<and> (micros_of_day end_t < micros_of_day start \<longrightarrow> \<not> within_work_hours now start end_t)
       \<and> (\<forall>day. within_work_hours (now\<lparr>date := day\<rparr>) start end_t
                 = within_work_hours now start end_t)"
proof -
  have iff: "within_work_hours now start end_t \<longleftrightarrow>
            micros_of_day start \<le> micros_of_day (time now) \<and>
            micros_of_day (time now) \<le> micros_of_day end_t"
    using assms by (simp add: within_work_hours_def Let_def micros_of_day_mono)
  have same: "start = end_t \<longrightarrow> (within_work_hours now start end_t \<longleftrightarrow> time now = start)"
  proof
    assume eq: "start = end_t"
    show "within_work_hours now start end_t \<longleftrightarrow> time now = start"
    proof
      assume "within_work_hours now start end_t"
      with iff eq have "micros_of_day (time now) = micros_of_day start" by simp
      with assms show "time now = start" by (simp add: micros_of_day_inj)
    next
      assume "time now = start"
      with iff eq show "within_work_hours now start end_t" by simp
    qed
  qed
  have none: "micros_of_day end_t < micros_of_day start \<longrightarrow> \<not> within_work_hours now start end_t"
    using iff by auto
  have day: "\<forall>day. within_work_hours (now\<lparr>date := day\<rparr>) start end_t
                 = within_work_hours now start end_t"
    by (simp add: within_work_hours_def)
  from iff same none day show ?thesis by blast
qed

text \<open>
  The theorem at 09:00 in the window from 09:00 to 09:00, and at 23:30 in the window from
  22:00 to 06:00.
\<close>

theorem within_work_hours_inclusive_witness:
  "within_work_hours \<lparr>date = 738000, time = \<lparr>hour = 9, minute = 0, second = 0, microsecond = 0\<rparr>\<rparr>
      \<lparr>hour = 9, minute = 0, second = 0, microsecond = 0\<rparr>
      \<lparr>hour = 9, minute = 0, second = 0, microsecond = 0\<rparr>
   \<and> \<not> within_work_hours \<lparr>date = 738000, time = \<lparr>hour = 23, minute = 30, second = 0, microsecond = 0\<rparr>\<rparr>
      \<lparr>hour = 22, minute = 0, second = 0, microsecond = 0\<rparr>
      \<lparr>hour = 6, minute = 0, second = 0, microsecond = 0\<rparr>"
  using within_work_hours_inclusive [of
      "\<lparr>date = 738000, time = \<lparr>hour = 9, minute = 0, second = 0, microsecond = 0\<rparr>\<rparr>"
      "\<lparr>hour = 9, minute = 0, second = 0, microsecond = 0\<rparr>"
      "\<lparr>hour = 9, minute = 0, second = 0, microsecond = 0\<rparr>"]
    within_work_hours_inclusive [of
      "\<lparr>date = 738000, time = \<lparr>hour = 23, minute = 30, second = 0, microsecond = 0\<rparr>\<rparr>"
      "\<lparr>hour = 22, minute = 0, second = 0, microsecond = 0\<rparr>"
      "\<lparr>hour = 6, minute = 0, second = 0, microsecond = 0\<rparr>"]
  by (simp add: valid_time_def micros_of_day_def)

section \<open>The time until work starts\<close>

text \<open>
  Claim C2, as far as it holds. Let \<open>now\<close> be a date-time and \<open>start\<close> a time of day such
  that \<open>now\<close> is not on the last day of the calendar or \<open>start\<close> is still ahead today.
  Then \<open>seconds_until_next_start\<close> returns a non-negative duration, which is the distance
  from \<open>now\<close> to the next date-time with the time of day \<open>start\<close>: today's when \<open>start\<close>
  is strictly ahead of the time of day of \<open>now\<close>, tomorrow's otherwise, and no date-time
  with that time of day lies strictly between \<open>now\<close> and it. When the second reading of the
  clock is a later instant, the duration is the distance from that reading to the same
  date-time, and zero when the reading is already past it.
\<close>

theorem seconds_until_next_start_correct:
  assumes "valid_datetime now" and "valid_time start"
      and "date now < MAXORDINAL \<or> micros_of_day (time now) < micros_of_day start"
  shows "\<exists>d. seconds_until_next_start now start = Inr d
           \<and> 0 \<le> d
           \<and> d = spec_seconds_between now (spec_next_start now start)
           \<and> real_of_int (micros_of_datetime now) + d * 1000000
               = real_of_int (micros_of_datetime (spec_next_start now start))
           \<and> valid_datetime (spec_next_start now start)
           \<and> time (spec_next_start now start) = start
           \<and> micros_of_datetime now < micros_of_datetime (spec_next_start now start)
           \<and> (\<forall>x. time x = start \<and> micros_of_datetime now < micros_of_datetime x
                  \<longrightarrow> micros_of_datetime (spec_next_start now start) \<le> micros_of_datetime x)
           \<and> (\<forall>later. sleep_until_work_start now later start
                  = Inr (max (spec_seconds_between later (spec_next_start now start)) 0))"
proof -
  let ?next = "spec_next_start now start"
  have vnow: "valid_time (time now)"
    using assms(1) by (simp add: valid_datetime_def)
  have bnow: "0 \<le> micros_of_day (time now)" "micros_of_day (time now) < 86400000000"
    using micros_of_day_bounds [OF vnow] by simp_all
  have bstart: "0 \<le> micros_of_day start" "micros_of_day start < 86400000000"
    using micros_of_day_bounds [OF assms(2)] by simp_all
  have general: "sleep_until_work_start now later start = Inr (time_until ?next later)" for later
    using assms(3) by (auto simp: sleep_until_work_start_eq [OF vnow assms(2)]
        spec_next_start_def combine_def)
  then have run: "seconds_until_next_start now start = Inr (time_until ?next now)"
    by (simp add: seconds_until_next_start_def)
  have readings: "\<forall>later. sleep_until_work_start now later start
                  = Inr (max (spec_seconds_between later ?next) 0)"
    using general by (simp add: time_until_eq)
  have later: "micros_of_datetime now < micros_of_datetime ?next"
    using bnow bstart by (simp add: spec_next_start_def micros_of_datetime_def)
  have dur: "time_until ?next now = spec_seconds_between now ?next"
    using later
    by (simp add: time_until_def Let_def datetime_sub_def total_seconds_def
        spec_seconds_between_def max_def)
  have nonneg: "0 \<le> spec_seconds_between now ?next"
    using later by (simp add: spec_seconds_between_def)
  have sum: "real_of_int (micros_of_datetime now) + spec_seconds_between now ?next * 1000000
               = real_of_int (micros_of_datetime ?next)"
    unfolding spec_seconds_between_def by (simp add: diff_divide_distrib)
  have valid: "valid_datetime ?next"
    using assms by (auto simp: spec_next_start_def valid_datetime_def)
  have tod: "time ?next = start"
    by (simp add: spec_next_start_def)
  have least: "\<forall>x. time x = start \<and> micros_of_datetime now < micros_of_datetime x
                  \<longrightarrow> micros_of_datetime ?next \<le> micros_of_datetime x"
  proof (intro allI impI)
    fix x
    assume x: "time x = start \<and> micros_of_datetime now < micros_of_datetime x"
    then have lt: "int (date now) * 86400000000 + micros_of_day (time now)
                     < int (date x) * 86400000000 + micros_of_day start"
      by (auto simp: micros_of_datetime_def)
    show "micros_of_datetime ?next \<le> micros_of_datetime x"
    proof (cases "micros_of_day (time now) < micros_of_day start")
      case True
      have "date now \<le> date x"
      proof (rule ccontr)
        assume "\<not> date now \<le> date x"
        then have "int (date x) + 1 \<le> int (date now)" by simp
        then have "(int (date x) + 1) * 86400000000 \<le> int (date now) * 86400000000"
          by (rule mult_right_mono) simp
        with lt bnow bstart show False by (simp add: algebra_simps)
      qed
      then have "int (date now) * 86400000000 \<le> int (date x) * 86400000000" by simp
      with True x show ?thesis
        by (simp add: spec_next_start_def micros_of_datetime_def)
    next
      case False
      have "date now + 1 \<le> date x"
      proof (rule ccontr)
        assume "\<not> date now + 1 \<le> date x"
        then have "int (date x) \<le> int (date now)" by simp
        then have "int (date x) * 86400000000 \<le> int (date now) * 86400000000"
          by (rule mult_right_mono) simp
        with lt False show False by simp
      qed
      then have "int (date now + 1) * 86400000000 \<le> int (date x) * 86400000000" by simp
      with False x show ?thesis
        by (simp add: spec_next_start_def micros_of_datetime_def)
    qed
  qed
  from run dur nonneg sum valid tod later least readings show ?thesis
    by (intro exI [of _ "spec_seconds_between now ?next"]) simp
qed

text \<open>
  The theorem at 20:00 of some day with \<open>start\<close> at 09:00 (13 hours), and one second
  before 09:00 on the last day of the calendar.
\<close>

theorem seconds_until_next_start_correct_witness:
  "seconds_until_next_start
     \<lparr>date = 738000, time = \<lparr>hour = 20, minute = 0, second = 0, microsecond = 0\<rparr>\<rparr>
     \<lparr>hour = 9, minute = 0, second = 0, microsecond = 0\<rparr> = Inr 46800
   \<and> seconds_until_next_start
     \<lparr>date = 3652059, time = \<lparr>hour = 8, minute = 59, second = 59, microsecond = 0\<rparr>\<rparr>
     \<lparr>hour = 9, minute = 0, second = 0, microsecond = 0\<rparr> = Inr 1"
  using seconds_until_next_start_correct [of
      "\<lparr>date = 738000, time = \<lparr>hour = 20, minute = 0, second = 0, microsecond = 0\<rparr>\<rparr>"
      "\<lparr>hour = 9, minute = 0, second = 0, microsecond = 0\<rparr>"]
    seconds_until_next_start_correct [of
      "\<lparr>date = 3652059, time = \<lparr>hour = 8, minute = 59, second = 59, microsecond = 0\<rparr>\<rparr>"
      "\<lparr>hour = 9, minute = 0, second = 0, microsecond = 0\<rparr>"]
  by (simp add: valid_datetime_def valid_time_def MAXORDINAL_def micros_of_day_def
      spec_seconds_between_def spec_next_start_def micros_of_datetime_def)

text \<open>
  On the last day of the calendar, 9999-12-31, after \<open>start\<close> has passed, there is no
  tomorrow: the addition of one day raises \<^verbatim>\<open>OverflowError\<close> and no duration is returned.
\<close>

theorem seconds_until_next_start_counterexample:
  "valid_datetime \<lparr>date = 3652059, time = \<lparr>hour = 10, minute = 0, second = 0, microsecond = 0\<rparr>\<rparr>
   \<and> valid_time \<lparr>hour = 9, minute = 0, second = 0, microsecond = 0\<rparr>
   \<and> seconds_until_next_start
        \<lparr>date = 3652059, time = \<lparr>hour = 10, minute = 0, second = 0, microsecond = 0\<rparr>\<rparr>
        \<lparr>hour = 9, minute = 0, second = 0, microsecond = 0\<rparr> = Inl OverflowError"
  by (simp add: valid_datetime_def valid_time_def MAXORDINAL_def seconds_until_next_start_def
      sleep_until_work_start_def Let_def combine_def datetime_ge_def datetime_tuple_def
      time_tuple_def less_eq_prod_def date_add_days_def)

section \<open>Parsed times are times of day\<close>

lemma parse_time_default_start:
  "parse_time DEFAULT_START = Inr \<lparr>hour = 9, minute = 0, second = 0, microsecond = 0\<rparr>"
  by (simp add: parse_time_def strptime_HM_def match_H_def match_M_def match_colon_def
      DEFAULT_START_def is_digit_def digit_value_def)

lemma parse_time_default_end:
  "parse_time DEFAULT_END = Inr \<lparr>hour = 17, minute = 0, second = 0, microsecond = 0\<rparr>"
  by (simp add: parse_time_def strptime_HM_def match_H_def match_M_def match_colon_def
      DEFAULT_END_def is_digit_def digit_value_def)

lemma match_H_bound: "(h, r) \<in> set (match_H s) \<Longrightarrow> h < 24"
  by (auto simp: match_H_def is_digit_def digit_value_def split: list.splits if_splits)

lemma match_M_bound: "(m, r) \<in> set (match_M s) \<Longrightarrow> m < 60"
  by (auto simp: match_M_def is_digit_def digit_value_def split: list.splits if_splits)

lemma strptime_HM_bounds:
  assumes "strptime_HM s = Inr (h, m)"
  shows "h < 24 \<and> m < 60"
proof -
  let ?cands = "concat (map (\<lambda>(h, r). concat (map (\<lambda>r'. map (\<lambda>(m, rest). (h, m, rest)) (match_M r'))
                                            (match_colon r)))
                       (match_H s))"
  from assms obtain rest cs where c: "?cands = (h, m, rest) # cs"
    by (auto simp: strptime_HM_def split: list.splits if_splits)
  have "(h, m, rest) \<in> set ?cands"
    unfolding c by simp
  then obtain r r' where "(h, r) \<in> set (match_H s)" and "(m, rest) \<in> set (match_M r')"
    by auto
  then show ?thesis
    using match_H_bound match_M_bound by blast
qed

lemma parse_time_valid:
  assumes "parse_time s = Inr t"
  shows "valid_time t \<and> second t = 0 \<and> microsecond t = 0"
proof -
  from assms obtain h m where hm: "strptime_HM s = Inr (h, m)"
    and t: "t = \<lparr>hour = h, minute = m, second = 0, microsecond = 0\<rparr>"
    by (auto simp: parse_time_def split: sum.splits prod.splits)
  from strptime_HM_bounds [OF hm] t show ?thesis
    by (simp add: valid_time_def)
qed

lemma parse_time_error: "parse_time s = Inl e \<Longrightarrow> e = ValueError"
  by (auto simp: parse_time_def strptime_HM_def split: sum.splits prod.splits list.splits if_splits)

section \<open>The path of the configuration file\<close>





section \<open>Loading the configuration\<close>

lemma load_config_missing_path:
  "\<not> path_exists w p \<Longrightarrow> load_config w p = Inr spec_defaults"
  by (simp add: load_config_def spec_defaults_def DEFAULT_INTERVAL_def DEFAULT_START_def DEFAULT_END_def)

lemma load_config_parsed:
  assumes "files w p = Some (Parsed cp)"
  shows "load_config w p =
           (case getint_fallback cp ''schedule'' ''interval'' DEFAULT_INTERVAL of
              Inl e \<Rightarrow> Inl e
            | Inr interval \<Rightarrow>
                (case get_fallback cp ''workhours'' ''start'' DEFAULT_START of
                   Inl e \<Rightarrow> Inl e
                 | Inr start_time \<Rightarrow>
                     (case get_fallback cp ''workhours'' ''end'' DEFAULT_END of
                        Inl e \<Rightarrow> Inl e
                      | Inr end_time \<Rightarrow>
                          Inr \<lparr>interval_value = interval, start_value = start_time,
                               end_value = end_time\<rparr>)))"
  using assms by (simp add: load_config_def path_exists_def read_config_def)

lemma getint_fallback_cases:
  "getint_fallback cp s k d = Inr n \<longleftrightarrow>
     (key_missing cp s k \<and> n = d) \<or> (\<exists>v. cp s k = Value v \<and> python_int v = Some n)"
  by (auto simp: getint_fallback_def key_missing_def split: lookup.splits option.splits)

lemma get_fallback_cases:
  "get_fallback cp s k d = Inr x \<longleftrightarrow> (key_missing cp s k \<and> x = d) \<or> cp s k = Value x"
  by (auto simp: get_fallback_def key_missing_def split: lookup.splits)

lemma load_config_parsed_Inr:
  assumes "files w p = Some (Parsed cp)"
  shows "load_config w p = Inr c \<longleftrightarrow>
           getint_fallback cp ''schedule'' ''interval'' DEFAULT_INTERVAL = Inr (interval_value c)
         \<and> get_fallback cp ''workhours'' ''start'' DEFAULT_START = Inr (start_value c)
         \<and> get_fallback cp ''workhours'' ''end'' DEFAULT_END = Inr (end_value c)"
  unfolding load_config_parsed [OF assms]
  by (cases c) (auto split: sum.splits)

lemma resolve_Inr:
  "resolve w = Inr c \<longleftrightarrow>
     (\<exists>d. load_config w (get_config_path w) = Inr d
          \<and> interval_seconds c = interval_value d
          \<and> parse_time (start_value d) = Inr (work_start c)
          \<and> parse_time (end_value d) = Inr (work_end c))"
  by (cases c) (auto simp: resolve_def Let_def split: sum.splits)

lemma resolve_error_kind:
  assumes "files w (get_config_path w) = Some (Parsed cp)" and "resolve w = Inl e"
  shows "e = ValueError \<or> e = InterpolationError"
  using assms(2) unfolding resolve_def Let_def load_config_parsed [OF assms(1)]
  by (auto simp: getint_fallback_def get_fallback_def
        split: sum.splits lookup.splits option.splits dest: parse_time_error)

text \<open>
  Claim C5. When nothing exists at the path, \<open>load_config\<close> returns the defaults 3600,
  "09:00" and "17:00" and raises nothing. When the file exists and \<open>load_config\<close>
  returns, every key that is missing has its default, and when all three keys are missing
  it returns the defaults. When nothing exists at the path that \<open>get_config_path\<close>
  chooses, the configuration is 3600 seconds, 09:00 and 17:00.
\<close>

theorem load_config_defaults:
  "(\<not> path_exists w p \<longrightarrow> load_config w p = Inr spec_defaults)
   \<and> (\<forall>cp c. files w p = Some (Parsed cp) \<and> load_config w p = Inr c \<longrightarrow>
         (key_missing cp ''schedule'' ''interval'' \<longrightarrow> interval_value c = 3600)
       \<and> (key_missing cp ''workhours'' ''start'' \<longrightarrow> start_value c = ''09:00'')
       \<and> (key_missing cp ''workhours'' ''end'' \<longrightarrow> end_value c = ''17:00''))
   \<and> (\<forall>cp. files w p = Some (Parsed cp)
            \<and> key_missing cp ''schedule'' ''interval''
            \<and> key_missing cp ''workhours'' ''start''
            \<and> key_missing cp ''workhours'' ''end'' \<longrightarrow> load_config w p = Inr spec_defaults)
   \<and> (\<not> path_exists w (get_config_path w) \<longrightarrow>
         resolve w = Inr \<lparr>interval_seconds = 3600,
                          work_start = \<lparr>hour = 9, minute = 0, second = 0, microsecond = 0\<rparr>,
                          work_end = \<lparr>hour = 17, minute = 0, second = 0, microsecond = 0\<rparr>\<rparr>)"
proof (intro conjI allI impI)
  assume "\<not> path_exists w p"
  then show "load_config w p = Inr spec_defaults" by (rule load_config_missing_path)
next
  fix cp c
  assume a: "files w p = Some (Parsed cp) \<and> load_config w p = Inr c"
  then have ok: "getint_fallback cp ''schedule'' ''interval'' DEFAULT_INTERVAL = Inr (interval_value c)"
      "get_fallback cp ''workhours'' ''start'' DEFAULT_START = Inr (start_value c)"
      "get_fallback cp ''workhours'' ''end'' DEFAULT_END = Inr (end_value c)"
    using load_config_parsed_Inr [of w p cp c] by simp_all
  {
    assume "key_missing cp ''schedule'' ''interval''"
    with ok(1) show "interval_value c = 3600"
      by (auto simp: getint_fallback_cases key_missing_def DEFAULT_INTERVAL_def)
  }
  {
    assume "key_missing cp ''workhours'' ''start''"
    with ok(2) show "start_value c = ''09:00''"
      by (auto simp: get_fallback_cases key_missing_def DEFAULT_START_def)
  }
  {
    assume "key_missing cp ''workhours'' ''end''"
    with ok(3) show "end_value c = ''17:00''"
      by (auto simp: get_fallback_cases key_missing_def DEFAULT_END_def)
  }
next
  fix cp
  assume a: "files w p = Some (Parsed cp)
            \<and> key_missing cp ''schedule'' ''interval''
            \<and> key_missing cp ''workhours'' ''start''
            \<and> key_missing cp ''workhours'' ''end''"
  then have "files w p = Some (Parsed cp)" by simp
  from load_config_parsed_Inr [OF this, of spec_defaults] a
  show "load_config w p = Inr spec_defaults"
    by (simp add: getint_fallback_cases get_fallback_cases spec_defaults_def
        DEFAULT_INTERVAL_def DEFAULT_START_def DEFAULT_END_def)
next
  assume "\<not> path_exists w (get_config_path w)"
  then have "load_config w (get_config_path w) = Inr spec_defaults"
    by (rule load_config_missing_path)
  then show "resolve w = Inr \<lparr>interval_seconds = 3600,
                          work_start = \<lparr>hour = 9, minute = 0, second = 0, microsecond = 0\<rparr>,
                          work_end = \<lparr>hour = 17, minute = 0, second = 0, microsecond = 0\<rparr>\<rparr>"
    using parse_time_default_start parse_time_default_end
    by (simp add: resolve_def Let_def spec_defaults_def DEFAULT_START_def DEFAULT_END_def)
qed

text \<open>
  The theorem on an empty file system, on an empty file, on a file that sets the interval
  to 5 and nothing else, and on a file that sets the work hours and no interval.
\<close>

theorem load_config_defaults_witness:
  "load_config (example_world [] []) ''/etc/xdg/break-reminder.conf''
     = Inr \<lparr>interval_value = 3600, start_value = ''09:00'', end_value = ''17:00''\<rparr>
   \<and> resolve (example_world [] [])
     = Inr \<lparr>interval_seconds = 3600, work_start = hm 9 0, work_end = hm 17 0\<rparr>
   \<and> load_config
        (example_world [] [(''/etc/xdg/break-reminder.conf'', Parsed (parser_of []))])
        ''/etc/xdg/break-reminder.conf''
     = Inr \<lparr>interval_value = 3600, start_value = ''09:00'', end_value = ''17:00''\<rparr>
   \<and> load_config
        (example_world []
           [(''/etc/xdg/break-reminder.conf'',
             Parsed (parser_of [(''schedule'', [(''interval'', ''5'')])]))])
        ''/etc/xdg/break-reminder.conf''
     = Inr \<lparr>interval_value = 5, start_value = ''09:00'', end_value = ''17:00''\<rparr>
   \<and> load_config
        (example_world []
           [(''/etc/xdg/break-reminder.conf'',
             Parsed (parser_of [(''workhours'', [(''start'', ''08:30''), (''end'', ''16:30'')])]))])
        ''/etc/xdg/break-reminder.conf''
     = Inr \<lparr>interval_value = 3600, start_value = ''08:30'', end_value = ''16:30''\<rparr>"
proof -
  let ?p = "''/etc/xdg/break-reminder.conf''"
  let ?w0 = "example_world [] []"
  have "\<not> path_exists ?w0 ?p"
    by (simp add: path_exists_def example_world_def)
  with load_config_defaults [of ?w0 ?p]
  have first: "load_config ?w0 ?p = Inr spec_defaults"
    by blast
  have "\<not> path_exists ?w0 (get_config_path ?w0)"
    by (simp add: eval_config example_world_def)
  with load_config_defaults [of ?w0 ?p]
  have second: "resolve ?w0 = Inr \<lparr>interval_seconds = 3600,
                          work_start = \<lparr>hour = 9, minute = 0, second = 0, microsecond = 0\<rparr>,
                          work_end = \<lparr>hour = 17, minute = 0, second = 0, microsecond = 0\<rparr>\<rparr>"
    by blast
  let ?w1 = "example_world [] [(?p, Parsed (parser_of []))]"
  have "files ?w1 ?p = Some (Parsed (parser_of []))
        \<and> key_missing (parser_of []) ''schedule'' ''interval''
        \<and> key_missing (parser_of []) ''workhours'' ''start''
        \<and> key_missing (parser_of []) ''workhours'' ''end''"
    by (simp add: example_world_def key_missing_def parser_of_def)
  with load_config_defaults [of ?w1 ?p]
  have third: "load_config ?w1 ?p = Inr spec_defaults"
    by blast
  let ?cp2 = "parser_of [(''schedule'', [(''interval'', ''5'')])]"
  let ?w2 = "example_world [] [(?p, Parsed ?cp2)]"
  obtain c2 where c2: "load_config ?w2 ?p = Inr c2" and i2: "interval_value c2 = 5"
    by (simp add: eval_config parser_of_def example_world_def eval_parse)
  have f2: "files ?w2 ?p = Some (Parsed ?cp2)"
    by (simp add: example_world_def)
  have m2: "key_missing ?cp2 ''workhours'' ''start''" "key_missing ?cp2 ''workhours'' ''end''"
    by (simp_all add: key_missing_def parser_of_def)
  from load_config_defaults [of ?w2 ?p] f2 c2 m2
  have "start_value c2 = ''09:00'' \<and> end_value c2 = ''17:00''"
    by blast
  with i2 have "c2 = \<lparr>interval_value = 5, start_value = ''09:00'', end_value = ''17:00''\<rparr>"
    by (cases c2) simp
  with c2 have fourth: "load_config ?w2 ?p
      = Inr \<lparr>interval_value = 5, start_value = ''09:00'', end_value = ''17:00''\<rparr>"
    by simp
  let ?cp3 = "parser_of [(''workhours'', [(''start'', ''08:30''), (''end'', ''16:30'')])]"
  let ?w3 = "example_world [] [(?p, Parsed ?cp3)]"
  obtain c3 where c3: "load_config ?w3 ?p = Inr c3"
    and se3: "start_value c3 = ''08:30''" "end_value c3 = ''16:30''"
    by (simp add: eval_config parser_of_def example_world_def eval_parse)
  have f3: "files ?w3 ?p = Some (Parsed ?cp3)"
    by (simp add: example_world_def)
  have m3: "key_missing ?cp3 ''schedule'' ''interval''"
    by (simp add: key_missing_def parser_of_def)
  from load_config_defaults [of ?w3 ?p] f3 c3 m3
  have "interval_value c3 = 3600"
    by blast
  with se3 have "c3 = \<lparr>interval_value = 3600, start_value = ''08:30'', end_value = ''16:30''\<rparr>"
    by (cases c3) simp
  with c3 have fifth: "load_config ?w3 ?p
      = Inr \<lparr>interval_value = 3600, start_value = ''08:30'', end_value = ''16:30''\<rparr>"
    by simp
  from first second third fourth fifth show ?thesis
    by (simp add: spec_defaults_def hm_def)
qed

text \<open>
  Claim C6. When the configuration file exists and its interval is not an integer for
  \<^verbatim>\<open>int\<close>, or its start or end is rejected by \<^verbatim>\<open>strptime\<close>, resolving the configuration
  raises an exception. No default stands in for a value that is present: whenever a
  configuration is returned, each value of the file is the one that was parsed into it.
\<close>

theorem resolve_malformed_raises:
  assumes "files w (get_config_path w) = Some (Parsed cp)"
  shows "((\<exists>v. cp ''schedule'' ''interval'' = Value v \<and> python_int v = None)
          \<or> (\<exists>v. cp ''workhours'' ''start'' = Value v \<and> parse_time v = Inl ValueError)
          \<or> (\<exists>v. cp ''workhours'' ''end'' = Value v \<and> parse_time v = Inl ValueError)
        \<longrightarrow> (\<exists>e. resolve w = Inl e))
       \<and> (\<forall>e. resolve w = Inl e \<longrightarrow> e = ValueError \<or> e = InterpolationError)
       \<and> (\<forall>c. resolve w = Inr c \<longrightarrow>
             (\<forall>v. cp ''schedule'' ''interval'' = Value v \<longrightarrow> python_int v = Some (interval_seconds c))
           \<and> (\<forall>v. cp ''workhours'' ''start'' = Value v \<longrightarrow> parse_time v = Inr (work_start c))
           \<and> (\<forall>v. cp ''workhours'' ''end'' = Value v \<longrightarrow> parse_time v = Inr (work_end c)))"
proof -
  have kind: "\<forall>e. resolve w = Inl e \<longrightarrow> e = ValueError \<or> e = InterpolationError"
    using resolve_error_kind [OF assms] by blast
  have present: "\<forall>c. resolve w = Inr c \<longrightarrow>
             (\<forall>v. cp ''schedule'' ''interval'' = Value v \<longrightarrow> python_int v = Some (interval_seconds c))
           \<and> (\<forall>v. cp ''workhours'' ''start'' = Value v \<longrightarrow> parse_time v = Inr (work_start c))
           \<and> (\<forall>v. cp ''workhours'' ''end'' = Value v \<longrightarrow> parse_time v = Inr (work_end c))"
  proof (intro allI impI)
    fix c
    assume "resolve w = Inr c"
    then obtain d where d: "load_config w (get_config_path w) = Inr d"
      and i: "interval_seconds c = interval_value d"
      and s: "parse_time (start_value d) = Inr (work_start c)"
      and e: "parse_time (end_value d) = Inr (work_end c)"
      unfolding resolve_Inr by blast
    from d have g: "getint_fallback cp ''schedule'' ''interval'' DEFAULT_INTERVAL = Inr (interval_value d)"
      "get_fallback cp ''workhours'' ''start'' DEFAULT_START = Inr (start_value d)"
      "get_fallback cp ''workhours'' ''end'' DEFAULT_END = Inr (end_value d)"
      using load_config_parsed_Inr [OF assms, of d] by simp_all
    have 1: "\<forall>v. cp ''schedule'' ''interval'' = Value v \<longrightarrow> python_int v = Some (interval_seconds c)"
      using g(1) i by (auto simp: getint_fallback_cases key_missing_def)
    have 2: "\<forall>v. cp ''workhours'' ''start'' = Value v \<longrightarrow> parse_time v = Inr (work_start c)"
      using g(2) s by (auto simp: get_fallback_cases key_missing_def)
    have 3: "\<forall>v. cp ''workhours'' ''end'' = Value v \<longrightarrow> parse_time v = Inr (work_end c)"
      using g(3) e by (auto simp: get_fallback_cases key_missing_def)
    from 1 2 3 show "(\<forall>v. cp ''schedule'' ''interval'' = Value v \<longrightarrow> python_int v = Some (interval_seconds c))
           \<and> (\<forall>v. cp ''workhours'' ''start'' = Value v \<longrightarrow> parse_time v = Inr (work_start c))
           \<and> (\<forall>v. cp ''workhours'' ''end'' = Value v \<longrightarrow> parse_time v = Inr (work_end c))"
      by blast
  qed
  have raises: "(\<exists>v. cp ''schedule'' ''interval'' = Value v \<and> python_int v = None)
          \<or> (\<exists>v. cp ''workhours'' ''start'' = Value v \<and> parse_time v = Inl ValueError)
          \<or> (\<exists>v. cp ''workhours'' ''end'' = Value v \<and> parse_time v = Inl ValueError)
        \<longrightarrow> (\<exists>e. resolve w = Inl e)"
  proof
    assume bad: "(\<exists>v. cp ''schedule'' ''interval'' = Value v \<and> python_int v = None)
          \<or> (\<exists>v. cp ''workhours'' ''start'' = Value v \<and> parse_time v = Inl ValueError)
          \<or> (\<exists>v. cp ''workhours'' ''end'' = Value v \<and> parse_time v = Inl ValueError)"
    show "\<exists>e. resolve w = Inl e"
    proof (cases "resolve w")
      case (Inl e)
      then show ?thesis by blast
    next
      case (Inr c)
      with present bad show ?thesis by fastforce
    qed
  qed
  from raises kind present show ?thesis by blast
qed

text \<open>
  The theorem on files with the interval "abc", with the start "25:00" and with the end
  "5pm", and on a file with the interval "45", which is parsed.
\<close>

theorem resolve_malformed_raises_witness:
  "resolve (example_world []
       [(''/etc/xdg/break-reminder.conf'',
         Parsed (parser_of [(''schedule'', [(''interval'', ''abc'')])]))]) = Inl ValueError
   \<and> resolve (example_world []
       [(''/etc/xdg/break-reminder.conf'',
         Parsed (parser_of [(''workhours'', [(''start'', ''25:00'')])]))]) = Inl ValueError
   \<and> resolve (example_world []
       [(''/etc/xdg/break-reminder.conf'',
         Parsed (parser_of [(''workhours'', [(''end'', ''5pm'')])]))]) = Inl ValueError
   \<and> python_int ''45'' = Some 45"
proof -
  let ?p = "''/etc/xdg/break-reminder.conf''"
  let ?cp1 = "parser_of [(''schedule'', [(''interval'', ''abc'')])]"
  let ?w1 = "example_world [] [(?p, Parsed ?cp1)]"
  let ?cp2 = "parser_of [(''workhours'', [(''start'', ''25:00'')])]"
  let ?w2 = "example_world [] [(?p, Parsed ?cp2)]"
  let ?cp3 = "parser_of [(''workhours'', [(''end'', ''5pm'')])]"
  let ?w3 = "example_world [] [(?p, Parsed ?cp3)]"
  let ?cp4 = "parser_of [(''schedule'', [(''interval'', ''45'')])]"
  let ?w4 = "example_world [] [(?p, Parsed ?cp4)]"
  have f1: "files ?w1 (get_config_path ?w1) = Some (Parsed ?cp1)"
    by (simp add: eval_config parser_of_def example_world_def)
  have bad1: "?cp1 ''schedule'' ''interval'' = Value ''abc'' \<and> python_int ''abc'' = None"
    by (simp add: parser_of_def eval_parse)
  from resolve_malformed_raises [OF f1] bad1 obtain e1 where e1: "resolve ?w1 = Inl e1"
    by blast
  have f2: "files ?w2 (get_config_path ?w2) = Some (Parsed ?cp2)"
    by (simp add: eval_config parser_of_def example_world_def)
  have bad2: "?cp2 ''workhours'' ''start'' = Value ''25:00'' \<and> parse_time ''25:00'' = Inl ValueError"
    by (simp add: parser_of_def eval_parse)
  from resolve_malformed_raises [OF f2] bad2 obtain e2 where e2: "resolve ?w2 = Inl e2"
    by blast
  have f3: "files ?w3 (get_config_path ?w3) = Some (Parsed ?cp3)"
    by (simp add: eval_config parser_of_def example_world_def)
  have bad3: "?cp3 ''workhours'' ''end'' = Value ''5pm'' \<and> parse_time ''5pm'' = Inl ValueError"
    by (simp add: parser_of_def eval_parse)
  from resolve_malformed_raises [OF f3] bad3 obtain e3 where e3: "resolve ?w3 = Inl e3"
    by blast
  have f4: "files ?w4 (get_config_path ?w4) = Some (Parsed ?cp4)"
    by (simp add: eval_config parser_of_def example_world_def)
  obtain c4 where c4: "resolve ?w4 = Inr c4" and i4: "interval_seconds c4 = 45"
    by (simp add: eval_config parser_of_def example_world_def eval_parse)
  have "?cp4 ''schedule'' ''interval'' = Value ''45''"
    by (simp add: parser_of_def)
  with resolve_malformed_raises [OF f4] c4 have "python_int ''45'' = Some (interval_seconds c4)"
    by blast
  with i4 have fourth: "python_int ''45'' = Some 45"
    by simp
  from e1 have "e1 = ValueError"
    by (simp add: eval_config parser_of_def example_world_def eval_parse)
  moreover from e2 have "e2 = ValueError"
    by (simp add: eval_config parser_of_def example_world_def eval_parse)
  moreover from e3 have "e3 = ValueError"
    by (simp add: eval_config parser_of_def example_world_def eval_parse)
  ultimately show ?thesis
    using e1 e2 e3 fourth by simp
qed

text \<open>
  Claim C8, as far as it holds. In every configuration that is returned, \<open>work_start\<close>
  and \<open>work_end\<close> are valid times of day with hour and minute only. The interval is 3600
  when nothing exists at the path or the key is missing, and otherwise the integer that
  the file states, whatever its sign.
\<close>

theorem resolve_invariant:
  assumes "resolve w = Inr c"
  shows "valid_time (work_start c) \<and> valid_time (work_end c)
       \<and> second (work_start c) = 0 \<and> microsecond (work_start c) = 0
       \<and> second (work_end c) = 0 \<and> microsecond (work_end c) = 0
       \<and> (\<not> path_exists w (get_config_path w) \<longrightarrow> interval_seconds c = 3600)
       \<and> (\<forall>cp. files w (get_config_path w) = Some (Parsed cp) \<longrightarrow>
             (key_missing cp ''schedule'' ''interval'' \<longrightarrow> interval_seconds c = 3600)
           \<and> (\<forall>v. cp ''schedule'' ''interval'' = Value v \<longrightarrow>
                  python_int v = Some (interval_seconds c)))"
proof -
  from assms obtain d where d: "load_config w (get_config_path w) = Inr d"
    and i: "interval_seconds c = interval_value d"
    and s: "parse_time (start_value d) = Inr (work_start c)"
    and e: "parse_time (end_value d) = Inr (work_end c)"
    unfolding resolve_Inr by blast
  have times: "valid_time (work_start c) \<and> valid_time (work_end c)
       \<and> second (work_start c) = 0 \<and> microsecond (work_start c) = 0
       \<and> second (work_end c) = 0 \<and> microsecond (work_end c) = 0"
    using parse_time_valid [OF s] parse_time_valid [OF e] by simp
  have absent: "\<not> path_exists w (get_config_path w) \<longrightarrow> interval_seconds c = 3600"
    using d i by (auto simp: load_config_missing_path spec_defaults_def)
  have parsed: "\<forall>cp. files w (get_config_path w) = Some (Parsed cp) \<longrightarrow>
             (key_missing cp ''schedule'' ''interval'' \<longrightarrow> interval_seconds c = 3600)
           \<and> (\<forall>v. cp ''schedule'' ''interval'' = Value v \<longrightarrow>
                  python_int v = Some (interval_seconds c))"
  proof (intro allI impI)
    fix cp
    assume f: "files w (get_config_path w) = Some (Parsed cp)"
    from d have "getint_fallback cp ''schedule'' ''interval'' DEFAULT_INTERVAL = Inr (interval_value d)"
      using load_config_parsed_Inr [OF f, of d] by simp
    with i show "(key_missing cp ''schedule'' ''interval'' \<longrightarrow> interval_seconds c = 3600)
           \<and> (\<forall>v. cp ''schedule'' ''interval'' = Value v \<longrightarrow>
                  python_int v = Some (interval_seconds c))"
      by (auto simp: getint_fallback_cases key_missing_def DEFAULT_INTERVAL_def)
  qed
  from times absent parsed show ?thesis by blast
qed

text \<open>
  The theorem on a file with the interval 5 and the work hours from 00:00 to 23:59, and on
  an empty file system.
\<close>

theorem resolve_invariant_witness:
  "resolve (example_world []
       [(''/etc/xdg/break-reminder.conf'',
         Parsed (parser_of [(''schedule'', [(''interval'', ''5'')]),
                            (''workhours'', [(''start'', ''00:00''), (''end'', ''23:59'')])]))])
     = Inr \<lparr>interval_seconds = 5, work_start = hm 0 0, work_end = hm 23 59\<rparr>
   \<and> valid_time (hm 0 0) \<and> valid_time (hm 23 59) \<and> python_int ''5'' = Some 5
   \<and> interval_seconds \<lparr>interval_seconds = 3600, work_start = hm 9 0, work_end = hm 17 0\<rparr>
       = 3600"
proof -
  let ?cp = "parser_of [(''schedule'', [(''interval'', ''5'')]),
                            (''workhours'', [(''start'', ''00:00''), (''end'', ''23:59'')])]"
  let ?w = "example_world [] [(''/etc/xdg/break-reminder.conf'', Parsed ?cp)]"
  let ?c = "\<lparr>interval_seconds = 5, work_start = hm 0 0, work_end = hm 23 59\<rparr>"
  have r: "resolve ?w = Inr ?c"
    by (simp add: eval_config parser_of_def example_world_def eval_parse hm_def)
  have f: "files ?w (get_config_path ?w) = Some (Parsed ?cp)"
    by (simp add: eval_config parser_of_def example_world_def)
  have v: "?cp ''schedule'' ''interval'' = Value ''5''"
    by (simp add: parser_of_def)
  from resolve_invariant [OF r] f v
  have "valid_time (work_start ?c) \<and> valid_time (work_end ?c)
        \<and> python_int ''5'' = Some (interval_seconds ?c)"
    by blast
  then have first: "valid_time (hm 0 0) \<and> valid_time (hm 23 59) \<and> python_int ''5'' = Some 5"
    by simp
  let ?w0 = "example_world [] []"
  let ?c0 = "\<lparr>interval_seconds = 3600, work_start = hm 9 0, work_end = hm 17 0\<rparr>"
  have r0: "resolve ?w0 = Inr ?c0"
    by (simp add: eval_config example_world_def eval_parse hm_def)
  have "\<not> path_exists ?w0 (get_config_path ?w0)"
    by (simp add: eval_config example_world_def)
  with resolve_invariant [OF r0] have "interval_seconds ?c0 = 3600"
    by blast
  with r first show ?thesis by simp
qed

text \<open>
  Nothing checks the sign of the interval: a file with the interval 0 gives a
  configuration whose interval is not positive.
\<close>

theorem resolve_invariant_counterexample:
  "resolve (example_world []
       [(''/etc/xdg/break-reminder.conf'',
         Parsed (parser_of [(''schedule'', [(''interval'', ''0'')])]))])
     = Inr \<lparr>interval_seconds = 0,
            work_start = \<lparr>hour = 9, minute = 0, second = 0, microsecond = 0\<rparr>,
            work_end = \<lparr>hour = 17, minute = 0, second = 0, microsecond = 0\<rparr>\<rparr>
   \<and> \<not> 0 < interval_seconds \<lparr>interval_seconds = 0,
            work_start = \<lparr>hour = 9, minute = 0, second = 0, microsecond = 0\<rparr>,
            work_end = \<lparr>hour = 17, minute = 0, second = 0, microsecond = 0\<rparr>\<rparr>"
  by (simp add: eval_config parser_of_def example_world_def eval_parse)



section \<open>Runs of the loop\<close>


lemma run_first: "0 < n \<Longrightarrow> run n clk cfg st ! 0 = iteration clk cfg st"
  by (cases n) (simp_all add: Let_def)


lemma iteration_before: "before (iteration clk cfg st) = st"
  by (simp add: iteration_def Let_def split: sum.splits)

lemma run_nth:
  "k < length (run n clk cfg st) \<Longrightarrow>
     run n clk cfg st ! k = iteration clk cfg (before (run n clk cfg st ! k))"
proof (induction n arbitrary: st k)
  case 0
  then show ?case by simp
next
  case (Suc n)
  show ?case
  proof (cases k)
    case 0
    then show ?thesis by (simp add: Let_def iteration_before)
  next
    case (Suc j)
    with Suc.prems have "raised (iteration clk cfg st) = None"
      and "j < length (run n clk cfg (after (iteration clk cfg st)))"
      by (auto simp: Let_def split: option.splits)
    with Suc.IH [of j "after (iteration clk cfg st)"] Suc show ?thesis
      by (simp add: Let_def)
  qed
qed

lemma run_next:
  "Suc k < length (run n clk cfg st) \<Longrightarrow>
     raised (run n clk cfg st ! k) = None
     \<and> before (run n clk cfg st ! Suc k) = after (run n clk cfg st ! k)"
proof (induction n arbitrary: st k)
  case 0
  then show ?case by simp
next
  case (Suc n)
  from Suc.prems have none: "raised (iteration clk cfg st) = None"
    and len: "k < length (run n clk cfg (after (iteration clk cfg st)))"
    by (auto simp: Let_def split: option.splits)
  show ?case
  proof (cases k)
    case 0
    with none len show ?thesis
      using run_first [of n clk cfg "after (iteration clk cfg st)"]
      by (cases n) (simp_all add: Let_def iteration_before)
  next
    case (Suc j)
    with Suc.prems none have "Suc j < length (run n clk cfg (after (iteration clk cfg st)))"
      by (simp add: Let_def)
    from Suc.IH [OF this] none Suc show ?thesis
      by (simp add: Let_def)
  qed
qed


lemma iteration_inside:
  assumes "in_window clk cfg st"
  shows "events (iteration clk cfg st) =
           [send_notification NOTIFICATION_TITLE
              (if first_run st then ''Starting work.'' else NOTIFICATION_MESSAGE) 10,
            Sleep (real_of_int (interval_seconds cfg))]"
    and "raised (iteration clk cfg st) = None"
    and "\<not> first_run (after (iteration clk cfg st))"
  using assms by (simp_all add: iteration_def Let_def)

lemma iteration_outside_flag:
  assumes "\<not> in_window clk cfg st"
  shows "flag_during (iteration clk cfg st)"
  using assms by (simp add: iteration_def Let_def split: sum.splits)

lemma iteration_outside:
  assumes "\<not> in_window clk cfg st"
  shows "first_run (after (iteration clk cfg st))"
    and "case sleep_until_work_start (clk (reads st + 1)) (clk (reads st + 2)) (work_start cfg) of
           Inl e \<Rightarrow> events (iteration clk cfg st) = [] \<and> raised (iteration clk cfg st) = Some e
         | Inr d \<Rightarrow> events (iteration clk cfg st) = [Sleep d]
                     \<and> raised (iteration clk cfg st) = None"
  using assms by (simp_all add: iteration_def Let_def split: sum.splits)

lemma main_loop_first:
  "0 < n \<Longrightarrow> main_loop n clk cfg ! 0 = iteration clk cfg \<lparr>first_run = True, reads = 0\<rparr>"
  by (simp add: main_loop_def run_first)

text \<open>
  The scenario of the specification (interval 5, work hours from 00:00 to 23:59, started
  inside the window), and a start before the work hours.
\<close>

lemma steady_run:
  "main_loop 3 steady_clock (example_config 5 (hm 0 0) (hm 23 59)) =
     [\<lparr>before = \<lparr>first_run = True, reads = 0\<rparr>,
       events = [Show ''Break Reminder'' ''Starting work.'' 10000, Sleep 5],
       flag_during = True,
       after = \<lparr>first_run = False, reads = 1\<rparr>, raised = None\<rparr>,
      \<lparr>before = \<lparr>first_run = False, reads = 1\<rparr>,
       events = [Show ''Break Reminder'' NOTIFICATION_MESSAGE 10000, Sleep 5],
       flag_during = False,
       after = \<lparr>first_run = False, reads = 3\<rparr>, raised = None\<rparr>,
      \<lparr>before = \<lparr>first_run = False, reads = 3\<rparr>,
       events = [Show ''Break Reminder'' NOTIFICATION_MESSAGE 10000, Sleep 5],
       flag_during = False,
       after = \<lparr>first_run = False, reads = 5\<rparr>, raised = None\<rparr>]"
  by (simp add: eval_loop hm_def example_config_def steady_clock_def numeral_3_eq_3)

lemma morning_run:
  "main_loop 2 morning_clock (example_config 5 (hm 9 0) (hm 17 0)) =
     [\<lparr>before = \<lparr>first_run = True, reads = 0\<rparr>,
       events = [Sleep 3600],
       flag_during = True,
       after = \<lparr>first_run = True, reads = 3\<rparr>, raised = None\<rparr>,
      \<lparr>before = \<lparr>first_run = True, reads = 3\<rparr>,
       events = [Show ''Break Reminder'' ''Starting work.'' 10000, Sleep 5],
       flag_during = True,
       after = \<lparr>first_run = False, reads = 4\<rparr>, raised = None\<rparr>]"
  by (simp add: eval_loop hm_def example_config_def morning_clock_def numeral_2_eq_2)



text \<open>
  Claim C4. The flag \<open>first_run\<close> is true when the loop starts. Every pass whose check
  fails sets it before it sleeps and shows nothing, so the flag is true while the loop
  waits for the work hours, at the end of the pass and at the start of the next one; and
  when the check of that next pass succeeds, its notification is the greeting
  "Starting work.".
\<close>

theorem first_run_reset_outside_window:
  "(0 < n \<longrightarrow> first_run (before (main_loop n clk cfg ! 0)))
   \<and> (\<forall>k < length (main_loop n clk cfg).
         \<not> in_window clk cfg (before (main_loop n clk cfg ! k)) \<longrightarrow>
           flag_during (main_loop n clk cfg ! k)
         \<and> first_run (after (main_loop n clk cfg ! k))
         \<and> \<not> list_ex is_notification (events (main_loop n clk cfg ! k)))
   \<and> (\<forall>k. Suc k < length (main_loop n clk cfg)
            \<and> \<not> in_window clk cfg (before (main_loop n clk cfg ! k)) \<longrightarrow>
          first_run (before (main_loop n clk cfg ! Suc k)))
   \<and> (\<forall>k. Suc k < length (main_loop n clk cfg)
            \<and> \<not> in_window clk cfg (before (main_loop n clk cfg ! k))
            \<and> in_window clk cfg (before (main_loop n clk cfg ! Suc k)) \<longrightarrow>
          events (main_loop n clk cfg ! Suc k) =
            [send_notification NOTIFICATION_TITLE ''Starting work.'' 10,
             Sleep (real_of_int (interval_seconds cfg))])"
proof -
  let ?ml = "main_loop n clk cfg"
  have step: "?ml ! k = iteration clk cfg (before (?ml ! k))" if "k < length ?ml" for k
    using that unfolding main_loop_def by (simp add: run_nth [symmetric])
  have init: "0 < n \<longrightarrow> first_run (before (?ml ! 0))"
    by (simp add: main_loop_first iteration_before)
  have reset: "flag_during (?ml ! k) \<and> first_run (after (?ml ! k))
                 \<and> \<not> list_ex is_notification (events (?ml ! k))"
    if "k < length ?ml" and "\<not> in_window clk cfg (before (?ml ! k))" for k
  proof -
    from iteration_outside [OF that(2)] iteration_outside_flag [OF that(2)] step [OF that(1)]
    show ?thesis by (auto split: sum.splits)
  qed
  have carried: "first_run (before (?ml ! Suc k))"
    if "Suc k < length ?ml" and "\<not> in_window clk cfg (before (?ml ! k))" for k
  proof -
    from that(1) have "before (?ml ! Suc k) = after (?ml ! k)"
      unfolding main_loop_def by (simp add: run_next)
    with reset [of k] that show ?thesis by simp
  qed
  have greeting: "events (?ml ! Suc k) =
            [send_notification NOTIFICATION_TITLE ''Starting work.'' 10,
             Sleep (real_of_int (interval_seconds cfg))]"
    if "Suc k < length ?ml" and "\<not> in_window clk cfg (before (?ml ! k))"
      and "in_window clk cfg (before (?ml ! Suc k))" for k
    using iteration_inside(1) [OF that(3)] carried [OF that(1,2)] step [OF that(1)]
    by simp
  from init reset carried greeting show ?thesis by blast
qed

text \<open>The theorem on a start at 08:00 with work hours from 09:00 to 17:00.\<close>

theorem first_run_reset_outside_window_witness:
  "first_run (before (main_loop 2 morning_clock (example_config 5 (hm 9 0) (hm 17 0)) ! 0))
   \<and> \<not> in_window morning_clock (example_config 5 (hm 9 0) (hm 17 0))
        (before (main_loop 2 morning_clock (example_config 5 (hm 9 0) (hm 17 0)) ! 0))
   \<and> flag_during (main_loop 2 morning_clock (example_config 5 (hm 9 0) (hm 17 0)) ! 0)
   \<and> first_run (after (main_loop 2 morning_clock (example_config 5 (hm 9 0) (hm 17 0)) ! 0))
   \<and> first_run (before (main_loop 2 morning_clock (example_config 5 (hm 9 0) (hm 17 0)) ! 1))
   \<and> events (main_loop 2 morning_clock (example_config 5 (hm 9 0) (hm 17 0)) ! 1)
       = [Show ''Break Reminder'' ''Starting work.'' 10000, Sleep 5]"
proof -
  let ?cfg = "example_config 5 (hm 9 0) (hm 17 0)"
  let ?ml = "main_loop 2 morning_clock ?cfg"
  note inst = first_run_reset_outside_window [of 2 morning_clock ?cfg]
  have len: "Suc 0 < length ?ml" "0 < length ?ml"
    by (simp_all add: morning_run)
  have out: "\<not> in_window morning_clock ?cfg (before (?ml ! 0))"
    by (simp add: morning_run) (simp add: eval_loop hm_def example_config_def morning_clock_def)
  have again: "in_window morning_clock ?cfg (before (?ml ! Suc 0))"
    by (simp add: morning_run) (simp add: eval_loop hm_def example_config_def morning_clock_def)
  from inst have start: "first_run (before (?ml ! 0))"
    by simp
  from inst len(2) out
  have reset: "flag_during (?ml ! 0) \<and> first_run (after (?ml ! 0))"
    by blast
  from inst len(1) out
  have carried: "first_run (before (?ml ! Suc 0))"
    by blast
  from inst len(1) out again
  have "events (?ml ! Suc 0) =
      [send_notification NOTIFICATION_TITLE ''Starting work.'' 10,
       Sleep (real_of_int (interval_seconds ?cfg))]"
    by blast
  with start out reset carried show ?thesis
    by (simp add: send_notification_def NOTIFICATION_TITLE_def example_config_def)
qed

text \<open>
  Claim C10. In every pass of the loop a notification is shown only if the check at the
  start of the pass succeeded. A pass whose check fails shows nothing: it sleeps for the
  duration that \<open>sleep_until_work_start\<close> computes, or ends with the exception raised
  there.
\<close>

theorem no_notification_outside_window:
  "\<forall>k < length (main_loop n clk cfg).
     (list_ex is_notification (events (main_loop n clk cfg ! k)) \<longrightarrow>
        in_window clk cfg (before (main_loop n clk cfg ! k)))
   \<and> (\<not> in_window clk cfg (before (main_loop n clk cfg ! k)) \<longrightarrow>
        (case sleep_until_work_start
                (clk (reads (before (main_loop n clk cfg ! k)) + 1))
                (clk (reads (before (main_loop n clk cfg ! k)) + 2)) (work_start cfg) of
           Inl e \<Rightarrow> events (main_loop n clk cfg ! k) = []
                     \<and> raised (main_loop n clk cfg ! k) = Some e
         | Inr d \<Rightarrow> events (main_loop n clk cfg ! k) = [Sleep d]
                     \<and> raised (main_loop n clk cfg ! k) = None))"
proof (intro allI impI)
  fix k
  let ?s = "main_loop n clk cfg ! k"
  assume "k < length (main_loop n clk cfg)"
  then have step: "?s = iteration clk cfg (before ?s)"
    unfolding main_loop_def by (simp add: run_nth [symmetric])
  have outside: "case sleep_until_work_start (clk (reads (before ?s) + 1))
                (clk (reads (before ?s) + 2)) (work_start cfg) of
           Inl e \<Rightarrow> events ?s = [] \<and> raised ?s = Some e
         | Inr d \<Rightarrow> events ?s = [Sleep d] \<and> raised ?s = None"
    if "\<not> in_window clk cfg (before ?s)"
    using iteration_outside(2) [OF that]
    by (simp add: step [symmetric] split: sum.splits)
  then have "\<not> list_ex is_notification (events ?s)" if "\<not> in_window clk cfg (before ?s)"
    using that by (auto split: sum.splits)
  with outside show "(list_ex is_notification (events ?s) \<longrightarrow> in_window clk cfg (before ?s))
   \<and> (\<not> in_window clk cfg (before ?s) \<longrightarrow>
        (case sleep_until_work_start (clk (reads (before ?s) + 1))
                (clk (reads (before ?s) + 2)) (work_start cfg) of
           Inl e \<Rightarrow> events ?s = [] \<and> raised ?s = Some e
         | Inr d \<Rightarrow> events ?s = [Sleep d] \<and> raised ?s = None))"
    by blast
qed

text \<open>The theorem on both passes of the start at 08:00.\<close>

theorem no_notification_outside_window_witness:
  "\<not> in_window morning_clock (example_config 5 (hm 9 0) (hm 17 0))
        (before (main_loop 2 morning_clock (example_config 5 (hm 9 0) (hm 17 0)) ! 0))
   \<and> events (main_loop 2 morning_clock (example_config 5 (hm 9 0) (hm 17 0)) ! 0) = [Sleep 3600]
   \<and> in_window morning_clock (example_config 5 (hm 9 0) (hm 17 0))
        (before (main_loop 2 morning_clock (example_config 5 (hm 9 0) (hm 17 0)) ! 1))"
proof -
  let ?cfg = "example_config 5 (hm 9 0) (hm 17 0)"
  let ?ml = "main_loop 2 morning_clock ?cfg"
  have len: "0 < length ?ml" "1 < length ?ml"
    by (simp_all add: morning_run)
  have out: "\<not> in_window morning_clock ?cfg (before (?ml ! 0))"
    by (simp add: morning_run) (simp add: eval_loop hm_def example_config_def morning_clock_def)
  have d: "sleep_until_work_start (morning_clock (reads (before (?ml ! 0)) + 1))
             (morning_clock (reads (before (?ml ! 0)) + 2)) (work_start ?cfg) = Inr 3600"
    by (simp add: morning_run) (simp add: eval_loop hm_def example_config_def morning_clock_def)
  from no_notification_outside_window [of 2 morning_clock ?cfg] len(1) out
  have "case sleep_until_work_start (morning_clock (reads (before (?ml ! 0)) + 1))
             (morning_clock (reads (before (?ml ! 0)) + 2)) (work_start ?cfg) of
          Inl e \<Rightarrow> events (?ml ! 0) = [] \<and> raised (?ml ! 0) = Some e
        | Inr d \<Rightarrow> events (?ml ! 0) = [Sleep d] \<and> raised (?ml ! 0) = None"
    by blast
  with d have sleep: "events (?ml ! 0) = [Sleep 3600]"
    by simp
  have "list_ex is_notification (events (?ml ! 1))"
    by (simp add: morning_run)
  with no_notification_outside_window [of 2 morning_clock ?cfg] len(2)
  have "in_window morning_clock ?cfg (before (?ml ! 1))"
    by blast
  with out sleep show ?thesis by simp
qed

end
